theory Spec2Isabelle
  imports Main "HOL-Library.Word"
begin

section \<open>pg\_misc\_functions.c: the host interface\<close>

text \<open>
  The module is one C file of six SQL-callable functions and one static helper.
  Everything it calls lives in the PostgreSQL server: \<open>superuser()\<close>, the two process
  lookups, \<open>kill(2)\<close>, the three WAL position readers and the \<open>ereport\<close> macro.
  Those are collected in the record \<open>host\<close>; the functions of the file take it as a
  parameter. What a call does beyond returning a value (a lookup made, a signal sent, a
  message reported) is appended to a trace, so that the order and the number of the
  effects can be stated.
\<close>

type_synonym int32 = "32 word"
  \<comment> \<open>C \<open>int\<close> on every platform PostgreSQL builds on; read as signed with \<open>sint\<close>\<close>
type_synonym uint32 = "32 word"
type_synonym TimeLineID = uint32
type_synonym XLogRecPtr = "64 word"

datatype PGPROC = ProcSlot nat
  \<comment> \<open>a non-NULL \<open>PGPROC *\<close>; the file only ever tests such a pointer against NULL\<close>

datatype elevel = WARNING | ERROR | FATAL | PANIC

datatype sqlerrcode = ERRCODE_INSUFFICIENT_PRIVILEGE | ERRCODE_INTERNAL_ERROR

text \<open>
  The auxiliary calls inside the parentheses of an \<open>ereport\<close>: \<open>errmsg\<close> and
  \<open>errdetail\<close> take a format string, \<open>errmsg\<close> here with the \<open>int\<close> arguments of
  its conversions.
\<close>

datatype errfield =
    errcode sqlerrcode
  | errmsg string "int32 list"
  | errdetail string

record ErrorData =
  elevel :: elevel
  sqlerrcode :: "sqlerrcode option"
  message :: string
  message_args :: "int32 list"
  detail :: "string option"
  saved_errno :: int32

datatype event =
    BackendPidGetProc_called int32
  | AuxiliaryPidGetProc_called int32
  | kill_called int32 int32
  | reported ErrorData

record backend_state =
  errno :: int32
  trace :: "event list"

datatype 'a outcome = Returned 'a | Raised ErrorData

type_synonym 'a exec = "backend_state \<Rightarrow> 'a outcome \<times> backend_state"

record host =
  superuser :: bool
  PostmasterPid :: int32
  BackendPidGetProc :: "int32 \<Rightarrow> PGPROC option"
  AuxiliaryPidGetProc :: "int32 \<Rightarrow> PGPROC option"
  kill :: "int32 \<Rightarrow> int32 \<Rightarrow> int32 \<times> int32"
    \<comment> \<open>the return value of \<open>kill(pid, sig)\<close> and the \<open>errno\<close> it sets when it fails\<close>
  HAVE_SETSID :: bool
    \<comment> \<open>the configure-time macro: whether the platform has \<open>setsid()\<close>\<close>
  GetFlushRecPtr :: "XLogRecPtr \<times> TimeLineID"
  GetXLogReplayRecPtr :: "XLogRecPtr \<times> TimeLineID"
  GetWalRcvFlushRecPtr :: "XLogRecPtr \<times> TimeLineID"
    \<comment> \<open>each reader: the position it returns and the timeline it stores through its pointer\<close>

subsection \<open>Sequencing\<close>

definition ret :: "'a \<Rightarrow> 'a exec" where
  "ret x s = (Returned x, s)"

definition andThen :: "'a exec \<Rightarrow> ('a \<Rightarrow> 'b exec) \<Rightarrow> 'b exec" where
  "andThen m f s =
     (case m s of
        (Raised e, s') \<Rightarrow> (Raised e, s')
      | (Returned x, s') \<Rightarrow> f x s')"

definition record_event :: "event \<Rightarrow> backend_state \<Rightarrow> backend_state" where
  "record_event ev s = s\<lparr>trace := trace s @ [ev]\<rparr>"

subsection \<open>ereport\<close>

text \<open>
  Modelled from the spec: the \<open>ereport\<close> macro and the meaning of its levels are the
  server's (\<open>elog.h\<close>), not this file's. A report at \<open>WARNING\<close> is the spec's non-fatal
  diagnostic: it is emitted and control returns to the caller. A report at \<open>ERROR\<close> is
  the spec's hard error that stops the single call; \<open>FATAL\<close> and \<open>PANIC\<close> are its
  divergent terminations. None of the three returns.
\<close>

fun elevel_returns :: "elevel \<Rightarrow> bool" where
  "elevel_returns WARNING = True"
| "elevel_returns ERROR = False"
| "elevel_returns FATAL = False"
| "elevel_returns PANIC = False"

text \<open>
  Modelled from the spec: how far a level reaches. A hard error aborts the current call
  only, \<open>FATAL\<close> ends the calling session without affecting sibling processes, \<open>PANIC\<close>
  is the most severe condition and restarts all cooperating processes.
\<close>

datatype reach = Nothing_stops | Current_call | Calling_session | All_processes

fun elevel_reach :: "elevel \<Rightarrow> reach" where
  "elevel_reach WARNING = Nothing_stops"
| "elevel_reach ERROR = Current_call"
| "elevel_reach FATAL = Calling_session"
| "elevel_reach PANIC = All_processes"

fun severity :: "elevel \<Rightarrow> nat" where
  "severity WARNING = 0"
| "severity ERROR = 1"
| "severity FATAL = 2"
| "severity PANIC = 3"

fun apply_errfield :: "ErrorData \<Rightarrow> errfield \<Rightarrow> ErrorData" where
  "apply_errfield e (errcode c) = e\<lparr>sqlerrcode := Some c\<rparr>"
| "apply_errfield e (errmsg fmt args) = e\<lparr>message := fmt, message_args := args\<rparr>"
| "apply_errfield e (errdetail d) = e\<lparr>detail := Some d\<rparr>"

definition errstart :: "elevel \<Rightarrow> backend_state \<Rightarrow> ErrorData" where
  "errstart lvl s =
     \<lparr>elevel = lvl, sqlerrcode = None, message = [], message_args = [],
      detail = None, saved_errno = errno s\<rparr>"

definition ereport :: "elevel \<Rightarrow> errfield list \<Rightarrow> unit exec" where
  "ereport lvl rest s =
     (let edata = foldl apply_errfield (errstart lvl s) rest
      in if elevel_returns lvl then (Returned (), record_event (reported edata) s)
         else (Raised edata, s))"

text \<open>The conversion characters of a format string, in order (\<open>%%\<close> is a literal percent).\<close>

fun conversions :: "string \<Rightarrow> string" where
  "conversions [] = []"
| "conversions [c] = []"
| "conversions (c # d # cs) =
     (if c = CHR ''%'' then (if d = CHR ''%'' then conversions cs else d # conversions cs)
      else conversions (d # cs))"

subsection \<open>Calls into the server and the operating system\<close>

definition call_BackendPidGetProc :: "host \<Rightarrow> int32 \<Rightarrow> backend_state \<Rightarrow> PGPROC option \<times> backend_state" where
  "call_BackendPidGetProc h pid s =
     (BackendPidGetProc h pid, record_event (BackendPidGetProc_called pid) s)"

definition call_AuxiliaryPidGetProc :: "host \<Rightarrow> int32 \<Rightarrow> backend_state \<Rightarrow> PGPROC option \<times> backend_state" where
  "call_AuxiliaryPidGetProc h pid s =
     (AuxiliaryPidGetProc h pid, record_event (AuxiliaryPidGetProc_called pid) s)"

definition call_kill :: "host \<Rightarrow> int32 \<Rightarrow> int32 \<Rightarrow> backend_state \<Rightarrow> int32 \<times> backend_state" where
  "call_kill h pid sig s =
     (let (rc, e) = kill h pid sig;
          s' = record_event (kill_called pid sig) s
      in (rc, if rc = 0 then s' else s'\<lparr>errno := e\<rparr>))"

section \<open>The functions of the file\<close>

datatype Datum =
    PG_RETURN_NULL
  | PG_RETURN_VOID
  | PG_RETURN_BOOL bool
  | PG_RETURN_UINT32 uint32

text \<open>
  The \<open>errdetail\<close> string literal that lines 54 and 76 spell out, once in \<open>pg_cause_panic\<close>
  and once in \<open>pg_cause_fatal\<close>.
\<close>

definition must_be_superuser_detail :: string where
  "must_be_superuser_detail =
     ''This function needs to be strictly used only for testing or development purposes not on production servers.''"

definition pg_cause_panic :: "host \<Rightarrow> Datum exec" where
  "pg_cause_panic h =
     andThen
       (if \<not> superuser h then
          ereport ERROR
            [errcode ERRCODE_INSUFFICIENT_PRIVILEGE,
             errmsg ''must be a superuser to execute pg_cause_panic function'' [],
             errdetail must_be_superuser_detail]
        else ret ())
       (\<lambda>_. andThen
          (ereport PANIC
             [errcode ERRCODE_INTERNAL_ERROR,
              errmsg ''PANIC generated by pg_cause_panic function'' []])
          (\<lambda>_. ret PG_RETURN_VOID))"

definition pg_cause_fatal :: "host \<Rightarrow> Datum exec" where
  "pg_cause_fatal h =
     andThen
       (if \<not> superuser h then
          ereport ERROR
            [errcode ERRCODE_INSUFFICIENT_PRIVILEGE,
             errmsg ''must be a superuser to execute pg_cause_fatal function'' [],
             errdetail must_be_superuser_detail]
        else ret ())
       (\<lambda>_. andThen
          (ereport FATAL
             [errcode ERRCODE_INTERNAL_ERROR,
              errmsg ''FATAL error generated by pg_cause_fatal function'' []])
          (\<lambda>_. ret PG_RETURN_VOID))"

text \<open>
  Lines 149 to 163 of \<open>SignalBackend\<close>, the part both branches of the first test reach.
  The negation is the C expression \<open>-pid\<close>; on a word it wraps at the least
  \<open>int\<close>, where C leaves it undefined.
\<close>

definition SignalBackend_deliver :: "host \<Rightarrow> int32 \<Rightarrow> int32 \<Rightarrow> bool exec" where
  "SignalBackend_deliver h pid signum s =
     (let (rc, s1) = call_kill h (if HAVE_SETSID h then - pid else pid) signum s
      in if rc \<noteq> 0 then
           andThen
             (ereport WARNING
                [errmsg ''could not send signal %d to process %d: %m'' [signum, pid]])
             (\<lambda>_. ret False) s1
         else ret True s1)"

definition SignalBackend :: "host \<Rightarrow> int32 \<Rightarrow> int32 \<Rightarrow> bool exec" where
  "SignalBackend h pid signum s =
     (if pid = PostmasterPid h then
        SignalBackend_deliver h pid signum s
      else
        (let (proc, s1) = call_BackendPidGetProc h pid s;
             (proc, s2) = (if proc = None then call_AuxiliaryPidGetProc h pid s1
                           else (proc, s1))
         in if proc = None then
              andThen
                (ereport WARNING
                   [errmsg ''PID %d is not a PostgreSQL server process'' [pid]])
                (\<lambda>_. ret False) s2
            else SignalBackend_deliver h pid signum s2))"

text \<open>
  The arguments \<open>pid\<close> and \<open>signum\<close> are what \<open>PG_GETARG_INT32\<close> reads from the call,
  before the superuser check; reading them has no effect.
\<close>

definition pg_signal_backend_with_pid :: "host \<Rightarrow> int32 \<Rightarrow> int32 \<Rightarrow> Datum exec" where
  "pg_signal_backend_with_pid h pid signum =
     andThen
       (if \<not> superuser h then
          ereport ERROR
            [errcode ERRCODE_INSUFFICIENT_PRIVILEGE,
             errmsg ''must be a superuser to execute pg_signal_backend function'' []]
        else ret ())
       (\<lambda>_. andThen (SignalBackend h pid signum) (\<lambda>b. ret (PG_RETURN_BOOL b)))"

definition pg_current_wal_tli :: "host \<Rightarrow> Datum" where
  "pg_current_wal_tli h =
     (let (_, tli) = GetFlushRecPtr h
      in if tli = 0 then PG_RETURN_NULL else PG_RETURN_UINT32 tli)"

definition pg_last_wal_replay_tli :: "host \<Rightarrow> Datum" where
  "pg_last_wal_replay_tli h =
     (let (_, tli) = GetXLogReplayRecPtr h
      in if tli = 0 then PG_RETURN_NULL else PG_RETURN_UINT32 tli)"

definition pg_last_wal_receive_tli :: "host \<Rightarrow> Datum" where
  "pg_last_wal_receive_tli h =
     (let (_, tli) = GetWalRcvFlushRecPtr h
      in if tli = 0 then PG_RETURN_NULL else PG_RETURN_UINT32 tli)"

section \<open>Reading a trace\<close>

fun is_lookup :: "event \<Rightarrow> bool" where
  "is_lookup (BackendPidGetProc_called _) = True"
| "is_lookup (AuxiliaryPidGetProc_called _) = True"
| "is_lookup _ = False"

definition emitted :: "backend_state \<Rightarrow> backend_state \<Rightarrow> event list" where
  "emitted s s' = drop (length (trace s)) (trace s')"

fun reports :: "event list \<Rightarrow> ErrorData list" where
  "reports [] = []"
| "reports (reported e # evs) = e # reports evs"
| "reports (_ # evs) = reports evs"

fun kills :: "event list \<Rightarrow> (int32 \<times> int32) list" where
  "kills [] = []"
| "kills (kill_called p sg # evs) = (p, sg) # kills evs"
| "kills (_ # evs) = kills evs"

definition lookups :: "event list \<Rightarrow> event list" where
  "lookups evs = filter is_lookup evs"

text \<open>The two warnings of \<open>SignalBackend\<close> as they reach the log.\<close>

definition not_a_server_process :: "int32 \<Rightarrow> int32 \<Rightarrow> ErrorData" where
  "not_a_server_process pid en =
     \<lparr>elevel = WARNING, sqlerrcode = None,
      message = ''PID %d is not a PostgreSQL server process'', message_args = [pid],
      detail = None, saved_errno = en\<rparr>"

definition could_not_send :: "int32 \<Rightarrow> int32 \<Rightarrow> int32 \<Rightarrow> ErrorData" where
  "could_not_send signum pid en =
     \<lparr>elevel = WARNING, sqlerrcode = None,
      message = ''could not send signal %d to process %d: %m'',
      message_args = [signum, pid], detail = None, saved_errno = en\<rparr>"

section \<open>A host to run the functions on\<close>

text \<open>
  Postmaster 4000; a client backend 4211; the checkpointer, an auxiliary process, 4007.
  Signals reach the process groups of the postmaster and of the backend; the
  checkpointer has exited since it was listed, so \<open>kill\<close> fails there with \<open>ESRCH\<close> (3).
\<close>

definition sample_kill :: "int32 \<Rightarrow> int32 \<Rightarrow> int32 \<times> int32" where
  "sample_kill pid sig = (if pid = - 4000 \<or> pid = - 4211 then (0, 0) else (- 1, 3))"

definition sample_host :: host where
  "sample_host =
     \<lparr>superuser = True, PostmasterPid = 4000,
      BackendPidGetProc = (\<lambda>pid. if pid = 4211 then Some (ProcSlot 3) else None),
      AuxiliaryPidGetProc = (\<lambda>pid. if pid = 4007 then Some (ProcSlot 101) else None),
      kill = sample_kill, HAVE_SETSID = True,
      GetFlushRecPtr = (0x16B3740, 1),
      GetXLogReplayRecPtr = (0, 0),
      GetWalRcvFlushRecPtr = (0x3000000, 7)\<rparr>"

definition idle :: backend_state where
  "idle = \<lparr>errno = 0, trace = []\<rparr>"


section \<open>What one call does\<close>

lemma ereport_WARNING:
  "ereport WARNING [errmsg fmt args] s =
     (Returned (),
      s\<lparr>trace := trace s @
         [reported \<lparr>elevel = WARNING, sqlerrcode = None, message = fmt, message_args = args,
                    detail = None, saved_errno = errno s\<rparr>]\<rparr>)"
  by (simp add: ereport_def errstart_def record_event_def)

lemma ereport_raises:
  "\<not> elevel_returns lvl \<Longrightarrow>
   ereport lvl rest s = (Raised (foldl apply_errfield (errstart lvl s) rest), s)"
  by (simp add: ereport_def)

lemma SignalBackend_deliver_run:
  "SignalBackend_deliver h pid signum s =
     (if fst (kill h (if HAVE_SETSID h then - pid else pid) signum) = 0
      then (Returned True,
            s\<lparr>trace := trace s @
               [kill_called (if HAVE_SETSID h then - pid else pid) signum]\<rparr>)
      else (Returned False,
            s\<lparr>errno := snd (kill h (if HAVE_SETSID h then - pid else pid) signum),
              trace := trace s @
                [kill_called (if HAVE_SETSID h then - pid else pid) signum,
                 reported (could_not_send signum pid
                   (snd (kill h (if HAVE_SETSID h then - pid else pid) signum)))]\<rparr>))"
  by (simp add: SignalBackend_deliver_def call_kill_def ret_def record_event_def andThen_def
      ereport_WARNING could_not_send_def Let_def case_prod_beta)

lemma SignalBackend_run:
  "SignalBackend h pid signum s =
    (if pid = PostmasterPid h then SignalBackend_deliver h pid signum s
     else if BackendPidGetProc h pid \<noteq> None
     then SignalBackend_deliver h pid signum
            (s\<lparr>trace := trace s @ [BackendPidGetProc_called pid]\<rparr>)
     else if AuxiliaryPidGetProc h pid \<noteq> None
     then SignalBackend_deliver h pid signum
            (s\<lparr>trace := trace s @
               [BackendPidGetProc_called pid, AuxiliaryPidGetProc_called pid]\<rparr>)
     else (Returned False,
           s\<lparr>trace := trace s @
              [BackendPidGetProc_called pid, AuxiliaryPidGetProc_called pid,
               reported (not_a_server_process pid (errno s))]\<rparr>))"
  by (simp add: SignalBackend_def call_BackendPidGetProc_def call_AuxiliaryPidGetProc_def
      andThen_def ereport_WARNING ret_def record_event_def not_a_server_process_def Let_def)

lemma gate_open:
  "superuser h \<Longrightarrow>
   pg_signal_backend_with_pid h pid signum s =
     (case SignalBackend h pid signum s of
        (Returned b, s') \<Rightarrow> (Returned (PG_RETURN_BOOL b), s')
      | (Raised e, s') \<Rightarrow> (Raised e, s'))"
  by (simp add: pg_signal_backend_with_pid_def andThen_def ret_def
      split: prod.splits outcome.splits)

lemma sample_host_simps:
  "superuser sample_host" "PostmasterPid sample_host = 4000" "HAVE_SETSID sample_host"
  "BackendPidGetProc sample_host pid = (if pid = 4211 then Some (ProcSlot 3) else None)"
  "AuxiliaryPidGetProc sample_host pid = (if pid = 4007 then Some (ProcSlot 101) else None)"
  "kill sample_host = sample_kill"
  "GetFlushRecPtr sample_host = (0x16B3740, 1)"
  "GetXLogReplayRecPtr sample_host = (0, 0)"
  "GetWalRcvFlushRecPtr sample_host = (0x3000000, 7)"
  by (simp_all add: sample_host_def)

lemma sint_uminus_int32:
  fixes pid :: int32
  assumes "sint pid \<noteq> - (2 ^ 31)"
  shows "sint (- pid) = - sint pid"
proof -
  have lo: "- (2 ^ 31) \<le> sint pid" and hi: "sint pid < 2 ^ 31"
    using sint_ge [of pid] sint_lt [of pid] by simp_all
  have "sint (- pid) = signed_take_bit 31 (- sint pid)"
    by (simp add: sint_word_ariths)
  also have "\<dots> = - sint pid"
    using lo hi assms by (intro signed_take_bit_int_eq_self) simp_all
  finally show ?thesis .
qed

section \<open>Signalling a process\<close>

text \<open>
  C1. A pid that is not the postmaster's and that neither \<open>BackendPidGetProc\<close> nor
  \<open>AuxiliaryPidGetProc\<close> knows: \<open>SignalBackend\<close> returns false, and so does the SQL
  function for a superuser; the call reports exactly one message, a \<open>WARNING\<close> (a level
  that returns to the caller, so no hard error) whose only conversion \<open>%d\<close> is given
  the pid; \<open>kill\<close> is never called.
\<close>

theorem SignalBackend_unknown_pid:
  assumes "pid \<noteq> PostmasterPid h"
    and "BackendPidGetProc h pid = None"
    and "AuxiliaryPidGetProc h pid = None"
  shows "\<exists>s' w.
      SignalBackend h pid signum s = (Returned False, s')
    \<and> (superuser h \<longrightarrow>
         pg_signal_backend_with_pid h pid signum s = (Returned (PG_RETURN_BOOL False), s'))
    \<and> reports (emitted s s') = [w]
    \<and> elevel w = WARNING \<and> elevel_returns (elevel w)
    \<and> message w = ''PID %d is not a PostgreSQL server process''
    \<and> conversions (message w) = ''d'' \<and> message_args w = [pid]
    \<and> kills (emitted s s') = []"
  using assms
  by (simp add: SignalBackend_run gate_open not_a_server_process_def emitted_def)

theorem SignalBackend_unknown_pid_witness:
  "999999 \<noteq> PostmasterPid sample_host
   \<and> BackendPidGetProc sample_host 999999 = None
   \<and> AuxiliaryPidGetProc sample_host 999999 = None
   \<and> superuser sample_host
   \<and> (\<exists>s' w.
        SignalBackend sample_host 999999 15 idle = (Returned False, s')
      \<and> pg_signal_backend_with_pid sample_host 999999 15 idle
          = (Returned (PG_RETURN_BOOL False), s')
      \<and> reports (emitted idle s') = [w]
      \<and> elevel w = WARNING
      \<and> message_args w = [999999]
      \<and> kills (emitted idle s') = [])"
proof -
  have a: "999999 \<noteq> PostmasterPid sample_host"
    and b: "BackendPidGetProc sample_host 999999 = None"
    and c: "AuxiliaryPidGetProc sample_host 999999 = None"
    and d: "superuser sample_host"
    by (simp_all add: sample_host_simps)
  from SignalBackend_unknown_pid [OF a b c, where signum = 15 and s = idle] d
  obtain s' w where
    "SignalBackend sample_host 999999 15 idle = (Returned False, s')"
    "pg_signal_backend_with_pid sample_host 999999 15 idle
       = (Returned (PG_RETURN_BOOL False), s')"
    "reports (emitted idle s') = [w]" "elevel w = WARNING"
    "message_args w = [999999]" "kills (emitted idle s') = []"
    by blast
  with a b c d show ?thesis by blast
qed


text \<open>
  C2. The order of resolution, read off the trace of one call. A pid equal to
  \<open>PostmasterPid\<close> makes no lookup at all, whatever the registries hold, and its first
  effect is the \<open>kill\<close>. Any other pid is first looked up with \<open>BackendPidGetProc\<close>; only
  when that finds nothing is it looked up with \<open>AuxiliaryPidGetProc\<close>; a pid found by
  either goes on to \<open>kill\<close>, and a pid found by neither gets the not-a-server-process
  warning instead. Nothing after that prefix is a lookup.
\<close>

theorem SignalBackend_resolution_order:
  "\<exists>rest. lookups rest = []
     \<and> emitted s (snd (SignalBackend h pid signum s)) =
       (if pid = PostmasterPid h then
          kill_called (if HAVE_SETSID h then - pid else pid) signum # rest
        else if BackendPidGetProc h pid \<noteq> None then
          BackendPidGetProc_called pid
            # kill_called (if HAVE_SETSID h then - pid else pid) signum # rest
        else if AuxiliaryPidGetProc h pid \<noteq> None then
          BackendPidGetProc_called pid # AuxiliaryPidGetProc_called pid
            # kill_called (if HAVE_SETSID h then - pid else pid) signum # rest
        else
          BackendPidGetProc_called pid # AuxiliaryPidGetProc_called pid
            # reported (not_a_server_process pid (errno s)) # rest)"
  by (simp add: SignalBackend_run SignalBackend_deliver_run emitted_def lookups_def)

theorem SignalBackend_resolution_order_witness:
  "\<exists>rest. lookups rest = []
     \<and> emitted idle (snd (SignalBackend sample_host 4007 15 idle)) =
         BackendPidGetProc_called 4007 # AuxiliaryPidGetProc_called 4007
           # kill_called (- 4007) 15 # rest"
  using SignalBackend_resolution_order [of idle sample_host 4007 15]
  by (simp add: sample_host_simps)

text \<open>
  C3. For a pid that resolved (the postmaster's, or one either lookup found), the call
  makes exactly one \<open>kill\<close>, with the given signal number: on \<open>-pid\<close>, the process
  group, where \<open>HAVE_SETSID\<close> is defined, and on \<open>pid\<close> itself where it is not. That
  holds of \<open>SignalBackend\<close> and, for a superuser, of the SQL function
  \<open>pg_signal_backend_with_pid\<close> that calls it. The word negation is the negation of the
  signed value for every pid but the least \<open>int\<close>.
\<close>

theorem SignalBackend_kill_target:
  assumes "pid = PostmasterPid h \<or> BackendPidGetProc h pid \<noteq> None
             \<or> AuxiliaryPidGetProc h pid \<noteq> None"
  shows "kills (emitted s (snd (SignalBackend h pid signum s))) =
           [(if HAVE_SETSID h then - pid else pid, signum)]
       \<and> (superuser h \<longrightarrow>
            kills (emitted s (snd (pg_signal_backend_with_pid h pid signum s))) =
              [(if HAVE_SETSID h then - pid else pid, signum)])
       \<and> (sint pid \<noteq> - (2 ^ 31) \<longrightarrow> sint (- pid) = - sint pid)"
proof -
  have helper: "kills (emitted s (snd (SignalBackend h pid signum s))) =
      [(if HAVE_SETSID h then - pid else pid, signum)]"
    using assms
    by (auto simp add: SignalBackend_run SignalBackend_deliver_run emitted_def)
  have entry: "kills (emitted s (snd (pg_signal_backend_with_pid h pid signum s))) =
      [(if HAVE_SETSID h then - pid else pid, signum)]" if "superuser h"
  proof -
    have "snd (pg_signal_backend_with_pid h pid signum s) = snd (SignalBackend h pid signum s)"
      using that by (simp add: gate_open split: prod.splits outcome.splits)
    with helper show ?thesis by simp
  qed
  from helper entry show ?thesis
    by (simp add: sint_uminus_int32)
qed

theorem SignalBackend_kill_target_witness:
  "BackendPidGetProc sample_host 4211 \<noteq> None
   \<and> sint (4211 :: int32) \<noteq> - (2 ^ 31)
   \<and> superuser sample_host
   \<and> kills (emitted idle (snd (SignalBackend sample_host 4211 15 idle))) = [(- 4211, 15)]
   \<and> kills (emitted idle (snd (pg_signal_backend_with_pid sample_host 4211 15 idle)))
       = [(- 4211, 15)]
   \<and> sint (- 4211 :: int32) = - 4211
   \<and> superuser (sample_host\<lparr>HAVE_SETSID := False\<rparr>)
   \<and> kills (emitted idle
        (snd (SignalBackend (sample_host\<lparr>HAVE_SETSID := False\<rparr>) 4211 15 idle)))
       = [(4211, 15)]
   \<and> kills (emitted idle
        (snd (pg_signal_backend_with_pid (sample_host\<lparr>HAVE_SETSID := False\<rparr>) 4211 15 idle)))
       = [(4211, 15)]"
proof -
  have a: "BackendPidGetProc sample_host 4211 \<noteq> None"
    and b: "BackendPidGetProc (sample_host\<lparr>HAVE_SETSID := False\<rparr>) 4211 \<noteq> None"
    and c: "sint (4211 :: int32) \<noteq> - (2 ^ 31)"
    and d: "superuser sample_host"
    and e: "superuser (sample_host\<lparr>HAVE_SETSID := False\<rparr>)"
    by (simp_all add: sample_host_simps)
  show ?thesis
    using a c d e
      SignalBackend_kill_target [of 4211 sample_host idle 15]
      SignalBackend_kill_target [of 4211 "sample_host\<lparr>HAVE_SETSID := False\<rparr>" idle 15] b
    by (simp add: sample_host_simps)
qed

text \<open>
  C4. For a pid that resolved, the call returns true exactly when \<open>kill\<close> returned 0.
  When \<open>kill\<close> returned anything else the call returns false after reporting one
  \<open>WARNING\<close>, a level that returns to the caller: its format has the conversions
  \<open>%d %d %m\<close>, the two \<open>%d\<close> are given the signal number and the pid, and \<open>%m\<close>
  stands for the \<open>errno\<close> that \<open>kill\<close> left. When \<open>kill\<close> returned 0 nothing is reported.
  That holds of \<open>SignalBackend\<close> and, for a superuser, of the SQL function
  \<open>pg_signal_backend_with_pid\<close>, which hands the boolean on with \<open>PG_RETURN_BOOL\<close> and
  reports nothing of its own.
\<close>

theorem SignalBackend_delivery_outcome:
  assumes "pid = PostmasterPid h \<or> BackendPidGetProc h pid \<noteq> None
             \<or> AuxiliaryPidGetProc h pid \<noteq> None"
  shows "fst (SignalBackend h pid signum s)
           = Returned (fst (kill h (if HAVE_SETSID h then - pid else pid) signum) = 0)
       \<and> reports (emitted s (snd (SignalBackend h pid signum s))) =
           (if fst (kill h (if HAVE_SETSID h then - pid else pid) signum) = 0 then []
            else [\<lparr>elevel = WARNING, sqlerrcode = None,
                   message = ''could not send signal %d to process %d: %m'',
                   message_args = [signum, pid], detail = None,
                   saved_errno = snd (kill h (if HAVE_SETSID h then - pid else pid) signum)\<rparr>])
       \<and> (superuser h \<longrightarrow>
            fst (pg_signal_backend_with_pid h pid signum s)
              = Returned (PG_RETURN_BOOL
                  (fst (kill h (if HAVE_SETSID h then - pid else pid) signum) = 0))
          \<and> reports (emitted s (snd (pg_signal_backend_with_pid h pid signum s))) =
              (if fst (kill h (if HAVE_SETSID h then - pid else pid) signum) = 0 then []
               else [\<lparr>elevel = WARNING, sqlerrcode = None,
                      message = ''could not send signal %d to process %d: %m'',
                      message_args = [signum, pid], detail = None,
                      saved_errno =
                        snd (kill h (if HAVE_SETSID h then - pid else pid) signum)\<rparr>]))
       \<and> conversions ''could not send signal %d to process %d: %m'' = ''ddm''
       \<and> elevel_returns WARNING"
proof -
  have res: "fst (SignalBackend h pid signum s)
      = Returned (fst (kill h (if HAVE_SETSID h then - pid else pid) signum) = 0)"
    using assms by (auto simp add: SignalBackend_run SignalBackend_deliver_run)
  have rep: "reports (emitted s (snd (SignalBackend h pid signum s))) =
      (if fst (kill h (if HAVE_SETSID h then - pid else pid) signum) = 0 then []
       else [\<lparr>elevel = WARNING, sqlerrcode = None,
              message = ''could not send signal %d to process %d: %m'',
              message_args = [signum, pid], detail = None,
              saved_errno = snd (kill h (if HAVE_SETSID h then - pid else pid) signum)\<rparr>])"
    using assms
    by (auto simp add: SignalBackend_run SignalBackend_deliver_run emitted_def
        could_not_send_def)
  have entry_snd:
    "snd (pg_signal_backend_with_pid h pid signum s) = snd (SignalBackend h pid signum s)"
    if "superuser h"
    using that by (simp add: gate_open split: prod.splits outcome.splits)
  have entry_fst: "fst (pg_signal_backend_with_pid h pid signum s)
      = Returned (PG_RETURN_BOOL
          (fst (kill h (if HAVE_SETSID h then - pid else pid) signum) = 0))"
    if "superuser h"
    using that res
    by (cases "SignalBackend h pid signum s") (auto simp add: gate_open split: outcome.splits)
  from res rep entry_snd entry_fst show ?thesis
    by simp
qed

theorem SignalBackend_delivery_outcome_witness:
  "AuxiliaryPidGetProc sample_host 4007 \<noteq> None
   \<and> fst (SignalBackend sample_host 4007 15 idle) = Returned False
   \<and> reports (emitted idle (snd (SignalBackend sample_host 4007 15 idle))) =
       [\<lparr>elevel = WARNING, sqlerrcode = None,
         message = ''could not send signal %d to process %d: %m'',
         message_args = [15, 4007], detail = None, saved_errno = 3\<rparr>]
   \<and> BackendPidGetProc sample_host 4211 \<noteq> None
   \<and> fst (SignalBackend sample_host 4211 15 idle) = Returned True
   \<and> reports (emitted idle (snd (SignalBackend sample_host 4211 15 idle))) = []
   \<and> superuser sample_host
   \<and> fst (pg_signal_backend_with_pid sample_host 4007 15 idle)
       = Returned (PG_RETURN_BOOL False)
   \<and> reports (emitted idle (snd (pg_signal_backend_with_pid sample_host 4007 15 idle))) =
       [\<lparr>elevel = WARNING, sqlerrcode = None,
         message = ''could not send signal %d to process %d: %m'',
         message_args = [15, 4007], detail = None, saved_errno = 3\<rparr>]
   \<and> fst (pg_signal_backend_with_pid sample_host 4211 15 idle)
       = Returned (PG_RETURN_BOOL True)
   \<and> reports (emitted idle (snd (pg_signal_backend_with_pid sample_host 4211 15 idle))) = []"
proof -
  have a: "AuxiliaryPidGetProc sample_host 4007 \<noteq> None"
    and b: "BackendPidGetProc sample_host 4211 \<noteq> None"
    and c: "superuser sample_host"
    by (simp_all add: sample_host_simps)
  show ?thesis
    using a b c
      SignalBackend_delivery_outcome [of 4007 sample_host 15 idle]
      SignalBackend_delivery_outcome [of 4211 sample_host 15 idle]
    by (simp add: sample_host_simps sample_kill_def)
qed

text \<open>
  C10. Every call of \<open>SignalBackend\<close> ends in one of two ways: it returns false having
  reported exactly one message, a \<open>WARNING\<close>; or it returns true having reported nothing.
\<close>

theorem SignalBackend_warns_iff_false:
  "(\<exists>w. fst (SignalBackend h pid signum s) = Returned False
        \<and> reports (emitted s (snd (SignalBackend h pid signum s))) = [w]
        \<and> elevel w = WARNING)
   \<or> (fst (SignalBackend h pid signum s) = Returned True
        \<and> reports (emitted s (snd (SignalBackend h pid signum s))) = [])"
  by (simp add: SignalBackend_run SignalBackend_deliver_run emitted_def
      could_not_send_def not_a_server_process_def)

text \<open>
  C9. For a superuser the SQL function returns a boolean for every pid and every signal
  number, and the boolean is a function of the comparison with \<open>PostmasterPid\<close>, of what
  the two lookups find and of what \<open>kill\<close> returns: no other test of either argument
  changes the result, so zero and negative pids and signal numbers of any value are
  taken as they come.
\<close>

theorem pg_signal_backend_with_pid_unchecked:
  assumes "superuser h"
  shows "fst (pg_signal_backend_with_pid h pid signum s) =
    Returned (PG_RETURN_BOOL
      ((pid = PostmasterPid h \<or> BackendPidGetProc h pid \<noteq> None
          \<or> AuxiliaryPidGetProc h pid \<noteq> None)
       \<and> fst (kill h (if HAVE_SETSID h then - pid else pid) signum) = 0))"
  using assms
  by (simp add: gate_open SignalBackend_run SignalBackend_deliver_run)

theorem pg_signal_backend_with_pid_unchecked_witness:
  "superuser sample_host
   \<and> fst (pg_signal_backend_with_pid sample_host 0 15 idle) = Returned (PG_RETURN_BOOL False)
   \<and> fst (pg_signal_backend_with_pid sample_host (- 1) (- 7) idle)
       = Returned (PG_RETURN_BOOL False)
   \<and> fst (pg_signal_backend_with_pid sample_host 4211 (- 7) idle)
       = Returned (PG_RETURN_BOOL True)
   \<and> fst (pg_signal_backend_with_pid sample_host 4000 0x7FFFFFFF idle)
       = Returned (PG_RETURN_BOOL True)"
proof -
  have a: "superuser sample_host"
    by (simp add: sample_host_simps)
  show ?thesis
    using a
      pg_signal_backend_with_pid_unchecked [OF a, where pid = 0 and signum = 15 and s = idle]
      pg_signal_backend_with_pid_unchecked [OF a, where pid = "- 1" and signum = "- 7" and s = idle]
      pg_signal_backend_with_pid_unchecked [OF a, where pid = 4211 and signum = "- 7" and s = idle]
      pg_signal_backend_with_pid_unchecked [OF a, where pid = 4000 and signum = "0x7FFFFFFF" and s = idle]
    by (simp add: sample_host_simps sample_kill_def)
qed


section \<open>The privilege check\<close>

text \<open>
  C5. When \<open>superuser()\<close> is false, each of \<open>pg_cause_panic\<close>, \<open>pg_cause_fatal\<close> and
  \<open>pg_signal_backend_with_pid\<close> raises an \<open>ERROR\<close>, a level that does not return, with
  the code \<open>ERRCODE_INSUFFICIENT_PRIVILEGE\<close>, and leaves the state as it found it: no
  lookup, no \<open>kill\<close>, no report, whatever the pid and the signal number.
\<close>

theorem not_superuser_rejected:
  assumes "\<not> superuser h"
  shows "pg_cause_panic h s =
      (Raised \<lparr>elevel = ERROR, sqlerrcode = Some ERRCODE_INSUFFICIENT_PRIVILEGE,
               message = ''must be a superuser to execute pg_cause_panic function'',
               message_args = [], detail = Some must_be_superuser_detail,
               saved_errno = errno s\<rparr>, s)
    \<and> pg_cause_fatal h s =
      (Raised \<lparr>elevel = ERROR, sqlerrcode = Some ERRCODE_INSUFFICIENT_PRIVILEGE,
               message = ''must be a superuser to execute pg_cause_fatal function'',
               message_args = [], detail = Some must_be_superuser_detail,
               saved_errno = errno s\<rparr>, s)
    \<and> (\<exists>e. pg_signal_backend_with_pid h pid signum s = (Raised e, s)
           \<and> elevel e = ERROR \<and> sqlerrcode e = Some ERRCODE_INSUFFICIENT_PRIVILEGE)
    \<and> \<not> elevel_returns ERROR \<and> emitted s s = []"
  using assms
  by (simp add: pg_cause_panic_def pg_cause_fatal_def pg_signal_backend_with_pid_def
      andThen_def ereport_raises errstart_def emitted_def)

theorem not_superuser_rejected_witness:
  "\<not> superuser (sample_host\<lparr>superuser := False\<rparr>)
   \<and> (\<exists>e. pg_cause_panic (sample_host\<lparr>superuser := False\<rparr>) idle = (Raised e, idle)
          \<and> elevel e = ERROR \<and> sqlerrcode e = Some ERRCODE_INSUFFICIENT_PRIVILEGE)
   \<and> (\<exists>e. pg_cause_fatal (sample_host\<lparr>superuser := False\<rparr>) idle = (Raised e, idle)
          \<and> elevel e = ERROR \<and> sqlerrcode e = Some ERRCODE_INSUFFICIENT_PRIVILEGE)
   \<and> (\<exists>e. pg_signal_backend_with_pid (sample_host\<lparr>superuser := False\<rparr>) 1 15 idle
            = (Raised e, idle)
          \<and> elevel e = ERROR \<and> sqlerrcode e = Some ERRCODE_INSUFFICIENT_PRIVILEGE)"
proof -
  have a: "\<not> superuser (sample_host\<lparr>superuser := False\<rparr>)"
    by simp
  show ?thesis
    using a not_superuser_rejected [OF a, where s = idle and pid = 1 and signum = 15]
    by simp
qed

text \<open>
  C6, evaluated for a caller that is not a superuser, on pid 1 and signal 15. The errors
  of \<open>pg_cause_panic\<close> and \<open>pg_cause_fatal\<close> carry the \<open>errdetail\<close> that the function is
  for testing or development only. The error of \<open>pg_signal_backend_with_pid\<close> has no
  detail: its \<open>ereport\<close> has an \<open>errcode\<close> and an \<open>errmsg\<close> and nothing else.
\<close>

theorem pg_signal_backend_with_pid_error_without_detail:
  "pg_signal_backend_with_pid (sample_host\<lparr>superuser := False\<rparr>) 1 15 idle =
     (Raised \<lparr>elevel = ERROR, sqlerrcode = Some ERRCODE_INSUFFICIENT_PRIVILEGE,
              message = ''must be a superuser to execute pg_signal_backend function'',
              message_args = [], detail = None, saved_errno = 0\<rparr>, idle)
   \<and> pg_cause_panic (sample_host\<lparr>superuser := False\<rparr>) idle =
     (Raised \<lparr>elevel = ERROR, sqlerrcode = Some ERRCODE_INSUFFICIENT_PRIVILEGE,
              message = ''must be a superuser to execute pg_cause_panic function'',
              message_args = [], detail = Some must_be_superuser_detail,
              saved_errno = 0\<rparr>, idle)
   \<and> pg_cause_fatal (sample_host\<lparr>superuser := False\<rparr>) idle =
     (Raised \<lparr>elevel = ERROR, sqlerrcode = Some ERRCODE_INSUFFICIENT_PRIVILEGE,
              message = ''must be a superuser to execute pg_cause_fatal function'',
              message_args = [], detail = Some must_be_superuser_detail,
              saved_errno = 0\<rparr>, idle)"
  by (simp add: pg_cause_panic_def pg_cause_fatal_def pg_signal_backend_with_pid_def
      andThen_def ereport_raises errstart_def idle_def)

section \<open>Crash injection\<close>

text \<open>
  C8. For a superuser, \<open>pg_cause_panic\<close> raises at level \<open>PANIC\<close> and \<open>pg_cause_fatal\<close> at
  level \<open>FATAL\<close>, both with \<open>ERRCODE_INTERNAL_ERROR\<close>; neither reaches its
  \<open>PG_RETURN_VOID\<close>, so neither returns a value. \<open>PANIC\<close> is the most severe level and
  reaches all processes, \<open>FATAL\<close> reaches the calling session only.
\<close>

theorem crash_functions_raise:
  assumes "superuser h"
  shows "pg_cause_panic h s =
      (Raised \<lparr>elevel = PANIC, sqlerrcode = Some ERRCODE_INTERNAL_ERROR,
               message = ''PANIC generated by pg_cause_panic function'',
               message_args = [], detail = None, saved_errno = errno s\<rparr>, s)
    \<and> pg_cause_fatal h s =
      (Raised \<lparr>elevel = FATAL, sqlerrcode = Some ERRCODE_INTERNAL_ERROR,
               message = ''FATAL error generated by pg_cause_fatal function'',
               message_args = [], detail = None, saved_errno = errno s\<rparr>, s)
    \<and> (\<forall>d. fst (pg_cause_panic h s) \<noteq> Returned d)
    \<and> (\<forall>d. fst (pg_cause_fatal h s) \<noteq> Returned d)
    \<and> elevel_reach PANIC = All_processes \<and> (\<forall>l. severity l \<le> severity PANIC)
    \<and> elevel_reach FATAL = Calling_session"
proof -
  have sev: "severity l \<le> 3" for l
    by (cases l) simp_all
  from assms show ?thesis
    by (simp add: pg_cause_panic_def pg_cause_fatal_def
        andThen_def ret_def ereport_raises errstart_def sev)
qed

theorem crash_functions_raise_witness:
  "superuser sample_host
   \<and> (\<exists>e. pg_cause_panic sample_host idle = (Raised e, idle) \<and> elevel e = PANIC)
   \<and> (\<exists>e. pg_cause_fatal sample_host idle = (Raised e, idle) \<and> elevel e = FATAL)"
proof -
  have a: "superuser sample_host"
    by (simp add: sample_host_simps)
  show ?thesis
    using a crash_functions_raise [OF a, where s = idle]
    by simp
qed

section \<open>Timelines\<close>

text \<open>
  C7. Each of \<open>pg_current_wal_tli\<close>, \<open>pg_last_wal_replay_tli\<close> and
  \<open>pg_last_wal_receive_tli\<close> returns SQL NULL when the timeline its reader stored is 0,
  returns that timeline when it is 1 or more, up to the greatest \<open>uint32\<close>, and never
  returns the number 0.
\<close>

theorem timeline_functions:
  "(snd (GetFlushRecPtr h) = 0 \<longrightarrow> pg_current_wal_tli h = PG_RETURN_NULL)
   \<and> (1 \<le> snd (GetFlushRecPtr h) \<longrightarrow>
        pg_current_wal_tli h = PG_RETURN_UINT32 (snd (GetFlushRecPtr h)))
   \<and> pg_current_wal_tli h \<noteq> PG_RETURN_UINT32 0
   \<and> (snd (GetXLogReplayRecPtr h) = 0 \<longrightarrow> pg_last_wal_replay_tli h = PG_RETURN_NULL)
   \<and> (1 \<le> snd (GetXLogReplayRecPtr h) \<longrightarrow>
        pg_last_wal_replay_tli h = PG_RETURN_UINT32 (snd (GetXLogReplayRecPtr h)))
   \<and> pg_last_wal_replay_tli h \<noteq> PG_RETURN_UINT32 0
   \<and> (snd (GetWalRcvFlushRecPtr h) = 0 \<longrightarrow> pg_last_wal_receive_tli h = PG_RETURN_NULL)
   \<and> (1 \<le> snd (GetWalRcvFlushRecPtr h) \<longrightarrow>
        pg_last_wal_receive_tli h = PG_RETURN_UINT32 (snd (GetWalRcvFlushRecPtr h)))
   \<and> pg_last_wal_receive_tli h \<noteq> PG_RETURN_UINT32 0"
  by (auto simp add: pg_current_wal_tli_def pg_last_wal_replay_tli_def
      pg_last_wal_receive_tli_def case_prod_beta)

theorem timeline_functions_witness:
  "1 \<le> snd (GetFlushRecPtr sample_host)
   \<and> pg_current_wal_tli sample_host = PG_RETURN_UINT32 1
   \<and> snd (GetXLogReplayRecPtr sample_host) = 0
   \<and> pg_last_wal_replay_tli sample_host = PG_RETURN_NULL
   \<and> 1 \<le> snd (GetWalRcvFlushRecPtr sample_host)
   \<and> pg_last_wal_receive_tli sample_host = PG_RETURN_UINT32 7
   \<and> snd (GetFlushRecPtr (sample_host\<lparr>GetFlushRecPtr := (0, 0)\<rparr>)) = 0
   \<and> pg_current_wal_tli (sample_host\<lparr>GetFlushRecPtr := (0, 0)\<rparr>) = PG_RETURN_NULL
   \<and> 1 \<le> snd (GetXLogReplayRecPtr (sample_host\<lparr>GetXLogReplayRecPtr := (0, 0xFFFFFFFF)\<rparr>))
   \<and> pg_last_wal_replay_tli (sample_host\<lparr>GetXLogReplayRecPtr := (0, 0xFFFFFFFF)\<rparr>)
       = PG_RETURN_UINT32 0xFFFFFFFF
   \<and> snd (GetWalRcvFlushRecPtr (sample_host\<lparr>GetWalRcvFlushRecPtr := (0, 0)\<rparr>)) = 0
   \<and> pg_last_wal_receive_tli (sample_host\<lparr>GetWalRcvFlushRecPtr := (0, 0)\<rparr>)
       = PG_RETURN_NULL"
proof -
  have a: "1 \<le> snd (GetFlushRecPtr sample_host)"
    and b: "snd (GetXLogReplayRecPtr sample_host) = 0"
    and c: "1 \<le> snd (GetWalRcvFlushRecPtr sample_host)"
    and d: "snd (GetFlushRecPtr (sample_host\<lparr>GetFlushRecPtr := (0, 0)\<rparr>)) = 0"
    and e: "1 \<le> snd (GetXLogReplayRecPtr
              (sample_host\<lparr>GetXLogReplayRecPtr := (0, 0xFFFFFFFF)\<rparr>))"
    and f: "snd (GetWalRcvFlushRecPtr (sample_host\<lparr>GetWalRcvFlushRecPtr := (0, 0)\<rparr>)) = 0"
    by (simp_all add: sample_host_simps)
  show ?thesis
    using a b c d e f
      timeline_functions [of sample_host]
      timeline_functions [of "sample_host\<lparr>GetFlushRecPtr := (0, 0)\<rparr>"]
      timeline_functions [of "sample_host\<lparr>GetXLogReplayRecPtr := (0, 0xFFFFFFFF)\<rparr>"]
      timeline_functions [of "sample_host\<lparr>GetWalRcvFlushRecPtr := (0, 0)\<rparr>"]
    by (simp add: sample_host_simps)
qed

end
